theory Spec2Isabelle
  imports Complex_Main
begin

section \<open>The OpenAI client singleton of \<^verbatim>\<open>clients/openai_client.py\<close>\<close>

text \<open>
  The class \<^verbatim>\<open>OpenAIClient\<close> is a process-wide singleton around the SDK's
  \<^verbatim>\<open>AsyncOpenAI\<close> connection. The embedding passes the state of the process
  explicitly: the objects of the class, the class attribute \<^verbatim>\<open>_instance\<close>, the
  \<^verbatim>\<open>asyncio.Lock\<close> objects, the Python lists handed in by callers, the records
  written to the logger and the requests handed to the remote service. What the
  remote service answers is an input of each method: either the awaited call
  raises an exception or it returns a value.

  Python text is a \<^typ>\<open>string\<close> whose characters stand for the code points
  below 256; text with other code points is outside the model. Temperatures are
  floats in the source; they are only copied, never computed with, and are reals
  here.
\<close>

subsection \<open>Exceptions, log records, requests\<close>

text \<open>
  Every constructor is a subclass of Python's \<^verbatim>\<open>Exception\<close>, which is what the
  handlers \<^verbatim>\<open>except Exception as e\<close> catch. \<open>SDKException\<close> stands for whatever
  exception of that kind the SDK raises from a network call. Cancellation and
  interpreter exit derive from \<^verbatim>\<open>BaseException\<close> only and are not modelled.
\<close>

datatype exn =
    AttributeError string
  | IndexError string
  | TypeError string
  | RuntimeError string
  | SDKException string

datatype 'a outcome = Raises exn | Returns 'a

datatype level = DEBUG | INFO | ERROR

datatype content = Str string | Parts "part list"
and part = Text_part string | Image_url_part string

text \<open>A message dictionary \<^verbatim>\<open>{"role": r, "content": c}\<close>.\<close>

datatype oai_message = Dict string content

text \<open>\<^verbatim>\<open>GLMessage\<close> of \<^verbatim>\<open>models.threads\<close>: the two attributes this file reads.\<close>

record GLMessage =
  content :: content
  role :: string

text \<open>
  An f-string is the list of its pieces: literal text and the interpolated values,
  each rendered by Python's \<^verbatim>\<open>str\<close>.
\<close>

datatype frag = S string | I int | E exn | M GLMessage

type_synonym log_record = "level \<times> frag list"

datatype AsyncOpenAI = AsyncOpenAI string

datatype thread = Thread string

fun thread_id :: "thread \<Rightarrow> string" where
  "thread_id (Thread i) = i"

datatype choice = Choice "string option"

fun message_content :: "choice \<Rightarrow> string option" where
  "message_content (Choice c) = c"

datatype chat_completion = ChatCompletion "choice list"

fun choices :: "chat_completion \<Rightarrow> choice list" where
  "choices (ChatCompletion cs) = cs"

text \<open>The calls on the connection, with the arguments the source passes.\<close>

datatype request =
    Assistants_retrieve string
  | Threads_create
  | Messages_create string content string
  | Chat_completions_create string "oai_message list" nat real
  | Runs_stream string string

subsection \<open>Configuration, objects and the state of the process\<close>

text \<open>The constants imported from \<^verbatim>\<open>core.config\<close>, which is not part of the sources.\<close>

record config =
  OPENAI_API_KEY :: string
  COT_MODEL_ID :: string
  MSG_MODEL_ID :: string
  IMG_MODEL_ID :: string
  COT_MODEL_TEMP :: real
  MSG_MODEL_TEMP :: real
  IMG_MODEL_TEMP :: real
  ASSISTANT_ID :: string

text \<open>
  An object of the class. An attribute that has not been assigned is \<open>None\<close>;
  reading it raises \<^verbatim>\<open>AttributeError\<close>. The attribute \<open>assistant\<close> may hold Python's
  \<^verbatim>\<open>None\<close>, which is the inner \<open>None\<close>.
\<close>

record OpenAIClient =
  initialized :: bool
  client :: "AsyncOpenAI option"
  assistant :: "string option option"
  chain_of_thought_model_id :: "string option"
  chain_of_thought_temp :: "real option"
  message_model_id :: "string option"
  message_model_temp :: "real option"
  image_model_id :: "string option"
  image_model_temp :: "real option"

text \<open>
  The process. \<open>heap s a\<close> is the object at address \<open>a\<close>; addresses from \<open>next_obj s\<close>
  on hold no object yet and read as an object without attributes. \<open>locks s\<close> are the
  \<^verbatim>\<open>asyncio.Lock\<close> objects in order of creation, each with its locked flag.
  \<open>list_store s\<close> holds the Python lists of message dictionaries; the address of a
  list is its position.
\<close>

record world =
  heap :: "nat \<Rightarrow> OpenAIClient"
  next_obj :: nat
  cls_instance :: "nat option"
  locks :: "bool list"
  list_store :: "oai_message list list"
  logged :: "log_record list"
  sent :: "request list"

definition blank :: OpenAIClient where
  "blank = \<lparr>initialized = False, client = None, assistant = None,
     chain_of_thought_model_id = None, chain_of_thought_temp = None,
     message_model_id = None, message_model_temp = None,
     image_model_id = None, image_model_temp = None\<rparr>"

text \<open>The process at start: no object, \<^verbatim>\<open>_instance = None\<close>.\<close>

definition start :: world where
  "start = \<lparr>heap = (\<lambda>_. blank), next_obj = 0, cls_instance = None, locks = [],
     list_store = [], logged = [], sent = []\<rparr>"

definition logger :: "level \<Rightarrow> frag list \<Rightarrow> world \<Rightarrow> world" where
  "logger l m s = s\<lparr>logged := logged s @ [(l, m)]\<rparr>"

definition send :: "request \<Rightarrow> world \<Rightarrow> world" where
  "send r s = s\<lparr>sent := sent s @ [r]\<rparr>"

definition update_obj :: "nat \<Rightarrow> (OpenAIClient \<Rightarrow> OpenAIClient) \<Rightarrow> world \<Rightarrow> world" where
  "update_obj a f s = s\<lparr>heap := (heap s)(a := f (heap s a))\<rparr>"

text \<open>Reading the attribute \<open>name\<close> of the object at \<open>self\<close>.\<close>

definition getattr ::
  "string \<Rightarrow> (OpenAIClient \<Rightarrow> 'a option) \<Rightarrow> nat \<Rightarrow> world \<Rightarrow> (exn + 'a) \<times> world" where
  "getattr name field self s =
     (case field (heap s self) of
        None \<Rightarrow> (Inl (AttributeError name), s)
      | Some x \<Rightarrow> (Inr x, s))"

text \<open>Sequencing: an exception of the first part ends the block.\<close>

definition and_then ::
  "(exn + 'a) \<times> world \<Rightarrow> ('a \<Rightarrow> world \<Rightarrow> (exn + 'b) \<times> world) \<Rightarrow> (exn + 'b) \<times> world" where
  "and_then m f = (case m of (Inl e, s) \<Rightarrow> (Inl e, s) | (Inr v, s) \<Rightarrow> f v s)"

text \<open>
  \<^verbatim>\<open>try: body except Exception as e: handler\<close>: the body has run to a result and a
  state; an exception it raised goes to the handler, in the state the body left.
\<close>

definition try_except ::
  "(exn + 'a) \<times> world \<Rightarrow> (exn \<Rightarrow> world \<Rightarrow> (exn + 'a) \<times> world) \<Rightarrow> (exn + 'a) \<times> world" where
  "try_except body handler =
     (case body of (Inl e, s) \<Rightarrow> handler e s | (Inr v, s) \<Rightarrow> (Inr v, s))"

text \<open>An awaited network call: the request goes out, then the call raises or returns.\<close>

definition await_call :: "request \<Rightarrow> 'a outcome \<Rightarrow> world \<Rightarrow> (exn + 'a) \<times> world" where
  "await_call r net s =
     (case net of Raises e \<Rightarrow> (Inl e, send r s) | Returns v \<Rightarrow> (Inr v, send r s))"

subsection \<open>Python's \<^verbatim>\<open>str.strip\<close> and \<^verbatim>\<open>str.lower\<close> on code points below 256\<close>

definition isspace :: "char \<Rightarrow> bool" where
  "isspace c = ((of_char c :: nat) \<in> {9, 10, 11, 12, 13, 28, 29, 30, 31, 32, 133, 160})"

definition strip :: "string \<Rightarrow> string" where
  "strip t = rev (dropWhile isspace (rev (dropWhile isspace t)))"

definition lower_char :: "char \<Rightarrow> char" where
  "lower_char c =
     (let n = (of_char c :: nat)
      in if (65 \<le> n \<and> n \<le> 90) \<or> (192 \<le> n \<and> n \<le> 222 \<and> n \<noteq> 215)
         then char_of (n + 32) else c)"

definition lower :: "string \<Rightarrow> string" where
  "lower t = map lower_char t"

text \<open>\<^verbatim>\<open>content.strip()\<close> where \<open>content\<close> may be \<^verbatim>\<open>None\<close>, which has no such method.\<close>

definition strip_of :: "string option \<Rightarrow> world \<Rightarrow> (exn + string) \<times> world" where
  "strip_of c s =
     (case c of
        None \<Rightarrow> (Inl (AttributeError ''strip''), s)
      | Some t \<Rightarrow> (Inr (strip t), s))"

text \<open>\<^verbatim>\<open>response.choices[0]\<close>.\<close>

definition first_choice :: "chat_completion \<Rightarrow> world \<Rightarrow> (exn + choice) \<times> world" where
  "first_choice response s =
     (case choices response of
        [] \<Rightarrow> (Inl (IndexError ''list index out of range''), s)
      | c # _ \<Rightarrow> (Inr c, s))"

subsection \<open>The singleton: \<^verbatim>\<open>__new__\<close>, \<^verbatim>\<open>async_init\<close>, \<^verbatim>\<open>create\<close>, \<^verbatim>\<open>get_instance\<close>\<close>

text \<open>
  \<^verbatim>\<open>cls()\<close>: the first call makes the object and sets its flag, later calls return
  it. The \<^verbatim>\<open>threading.Lock\<close> is taken and released inside; nothing awaits while it
  is held, and the event loop runs the callers on one thread.
\<close>

definition OpenAIClient_new :: "world \<Rightarrow> nat \<times> world" where
  "OpenAIClient_new s =
     (case cls_instance s of
        None \<Rightarrow>
          (let a = next_obj s
           in (a, s\<lparr>heap := (heap s)(a := blank), next_obj := Suc a, cls_instance := Some a\<rparr>))
      | Some a \<Rightarrow> (a, s))"

definition release :: "nat \<Rightarrow> world \<Rightarrow> world" where
  "release l s = s\<lparr>locks := (locks s)[l := False]\<rparr>"

text \<open>
  \<^verbatim>\<open>async_init\<close> awaits once, on the retrieval of the assistant. \<open>async_init_enter\<close>
  is the method up to that point: it has either returned, or sent the request and
  is suspended holding the lock \<open>l\<close>. \<^verbatim>\<open>async with asyncio.Lock()\<close> makes a new lock
  object at every call and acquires it; a lock just made is free, so acquiring it
  does not wait.
\<close>

datatype init_pc = Returned | At_retrieve nat

definition async_init_enter :: "config \<Rightarrow> nat \<Rightarrow> world \<Rightarrow> init_pc \<times> world" where
  "async_init_enter cfg self s =
     (if \<not> initialized (heap s self) then
        (let l = length (locks s);
             s1 = s\<lparr>locks := locks s @ [True]\<rparr>
         in if \<not> initialized (heap s1 self) then
              (let s2 = update_obj self
                          (\<lambda>ob. ob\<lparr>client := Some (AsyncOpenAI (OPENAI_API_KEY cfg))\<rparr>) s1
               in (At_retrieve l, send (Assistants_retrieve (ASSISTANT_ID cfg)) s2))
            else (Returned, release l s1))
      else (Returned, s))"

text \<open>The rest of \<^verbatim>\<open>async_init\<close>, from the point where the awaited retrieval ends.\<close>

definition async_init_resume :: "config \<Rightarrow> nat \<Rightarrow> nat \<Rightarrow> string outcome \<Rightarrow> world \<Rightarrow> world" where
  "async_init_resume cfg self l net s =
     (let s1 = (case net of
                  Returns a \<Rightarrow>
                    logger INFO [S ''Assistant '', S (ASSISTANT_ID cfg), S '' retrieved successfully.'']
                      (update_obj self (\<lambda>ob. ob\<lparr>assistant := Some (Some a)\<rparr>) s)
                | Raises e \<Rightarrow>
                    update_obj self (\<lambda>ob. ob\<lparr>assistant := Some None\<rparr>)
                      (logger ERROR [S ''Error retrieving assistant '', S (ASSISTANT_ID cfg), S '': '', E e] s));
          s2 = update_obj self
                 (\<lambda>ob. ob\<lparr>chain_of_thought_model_id := Some (COT_MODEL_ID cfg),
                            chain_of_thought_temp := Some (COT_MODEL_TEMP cfg),
                            message_model_id := Some (MSG_MODEL_ID cfg),
                            message_model_temp := Some (MSG_MODEL_TEMP cfg),
                            image_model_id := Some (IMG_MODEL_ID cfg),
                            image_model_temp := Some (IMG_MODEL_TEMP cfg)\<rparr>) s1;
          s3 = update_obj self (\<lambda>ob. ob\<lparr>initialized := True\<rparr>) s2
      in release l s3)"

text \<open>\<^verbatim>\<open>async_init\<close> awaited by a caller while nothing else runs in between.\<close>

definition async_init :: "config \<Rightarrow> nat \<Rightarrow> string outcome \<Rightarrow> world \<Rightarrow> world" where
  "async_init cfg self net s =
     (case async_init_enter cfg self s of
        (Returned, s1) \<Rightarrow> s1
      | (At_retrieve l, s1) \<Rightarrow> async_init_resume cfg self l net s1)"

definition create :: "config \<Rightarrow> string outcome \<Rightarrow> world \<Rightarrow> nat \<times> world" where
  "create cfg net s =
     (case OpenAIClient_new s of
        (inst, s1) \<Rightarrow> (inst, async_init cfg inst net s1))"

definition not_initialized_message :: string where
  "not_initialized_message =
     ''OpenAIClient must be initialized asynchronously using `await OpenAIClient.create()` before accessing it.''"

definition get_instance :: "world \<Rightarrow> (exn + nat) \<times> world" where
  "get_instance s =
     (case OpenAIClient_new s of
        (inst, s1) \<Rightarrow>
          if \<not> initialized (heap s1 inst)
          then (Inl (RuntimeError not_initialized_message), s1)
          else (Inr inst, s1))"

subsection \<open>Thread operations\<close>

text \<open>
  Thread identifiers are the strings the service hands out (the annotation \<^verbatim>\<open>int\<close>
  on \<^verbatim>\<open>add_to_asst_thread\<close> is not enforced). Each method takes the outcome \<open>net\<close>
  of its awaited call. A result \<open>Inl e\<close> is an exception leaving the method.
\<close>

definition create_asst_thread ::
  "nat \<Rightarrow> int \<Rightarrow> thread outcome \<Rightarrow> world \<Rightarrow> (exn + string option) \<times> world" where
  "create_asst_thread self user_id net s =
     try_except
       (and_then (getattr ''client'' client self
                    (logger DEBUG [S ''Creating assistant thread for user '', I user_id] s))
          (\<lambda>c s1. and_then (await_call Threads_create net s1)
             (\<lambda>thread s2. (Inr (Some (thread_id thread)), s2))))
       (\<lambda>e s'. (Inr None,
          logger ERROR [S ''Failed to create thread for user '', I user_id, S '': '', E e] s'))"

definition add_to_asst_thread ::
  "nat \<Rightarrow> string \<Rightarrow> GLMessage \<Rightarrow> unit outcome \<Rightarrow> world \<Rightarrow> (exn + bool) \<times> world" where
  "add_to_asst_thread self tid message net s =
     try_except
       (and_then (getattr ''client'' client self s)
          (\<lambda>c s1. and_then
             (await_call (Messages_create tid (content message) (role message)) net s1)
             (\<lambda>_ s2. (Inr True, logger INFO [S ''Added message to asst thread '', S tid] s2))))
       (\<lambda>e s'. (Inr False,
          logger ERROR [S (''Failed to add message to thread:'' @ [CHR 0x0A]), M message,
                        S ([CHR 0x0A] @ ''THREAD:''), S tid, S [CHR 0x0A], E e, S [CHR 0x0A]] s'))"

text \<open>
  \<^verbatim>\<open>request_asst_response\<close> reads \<^verbatim>\<open>self.client.beta.threads.update\<close> before its
  \<^verbatim>\<open>try\<close>. The stream is opened and awaited until done; \<open>net\<close> is how that ends. The
  events go to a new \<^verbatim>\<open>AssistantStreamHandler\<close>, which is not part of the sources.
\<close>

definition request_asst_response ::
  "config \<Rightarrow> nat \<Rightarrow> string \<Rightarrow> unit outcome \<Rightarrow> world \<Rightarrow> (exn + unit) \<times> world" where
  "request_asst_response cfg self tid net s =
     and_then (getattr ''client'' client self s)
       (\<lambda>c0 s0.
          try_except
            (and_then (getattr ''client'' client self
                         (logger INFO [S ''Requesting assistant response for thread '', S tid,
                                       S '' and assistant '', S (ASSISTANT_ID cfg)] s0))
               (\<lambda>c s1. await_call (Runs_stream tid (ASSISTANT_ID cfg)) net s1))
            (\<lambda>e s'. (Inr (), logger ERROR [S ''Error streaming assistant response: '', E e] s')))"

subsection \<open>Single-shot content methods\<close>

definition image_system_prompt :: string where
  "image_system_prompt =
     ''Your purpose is to provide a description of the image content embeded in the message.''
     @ [CHR 0x0A] @ [CHR 0x0A]
     @ ''Provide a succinct description useful for someone who can'' @ [CHR 0x27]
     @ ''t see it. Include any relevant text or context in the image, but try to keep it concise.''"

definition image_user_prompt :: string where
  "image_user_prompt =
     ''What is in this image? Provide a succinct description useful for someone who can''
     @ [CHR 0x27] @ ''t see it.''"

definition image_describer ::
  "nat \<Rightarrow> string \<Rightarrow> chat_completion outcome \<Rightarrow> world \<Rightarrow> (exn + string option) \<times> world" where
  "image_describer self base64_str net s =
     try_except
       (and_then (getattr ''client'' client self s) (\<lambda>c s1.
        and_then (getattr ''image_model_id'' image_model_id self s1) (\<lambda>model s2.
        and_then (getattr ''image_model_temp'' image_model_temp self s2) (\<lambda>temp s3.
        and_then
          (await_call
             (Chat_completions_create model
                [Dict ''system'' (Str image_system_prompt),
                 Dict ''user'' (Parts [Text_part image_user_prompt,
                                       Image_url_part (''data:image/jpeg;base64,'' @ base64_str)])]
                300 temp) net s3)
          (\<lambda>response s4.
             (Inr (case choices response of
                     [] \<Rightarrow> Some ''No description available''
                   | c # _ \<Rightarrow> message_content c), s4))))))
       (\<lambda>e s'. (Inr (Some ''No description available''),
          logger ERROR [S ''Error processing image content: '', E e] s'))"

definition text_system_prompt :: string where
  "text_system_prompt =
     ''Your purpose is to provide a concise, succint summary of text descriptions.''"

definition text_user_prompt :: "string \<Rightarrow> string" where
  "text_user_prompt description =
     ''Create a concise, succint, one-to-two-sentence summary for the following description:''
     @ [CHR 0x0A] @ [CHR 0x0A] @ description @ [CHR 0x0A] @ [CHR 0x0A] @ ''Summary:''"

text \<open>
  \<^verbatim>\<open>response.choices[0].message.content.strip() if response.choices else ...\<close>, the
  last statement of the \<^verbatim>\<open>try\<close> block of both summarizers.
\<close>

definition summary_of :: "chat_completion \<Rightarrow> world \<Rightarrow> (exn + string) \<times> world" where
  "summary_of response s =
     (case choices response of
        [] \<Rightarrow> (Inr ''No summary available'', s)
      | c # _ \<Rightarrow> strip_of (message_content c) s)"

definition text_summarizer ::
  "nat \<Rightarrow> string \<Rightarrow> chat_completion outcome \<Rightarrow> world \<Rightarrow> (exn + string) \<times> world" where
  "text_summarizer self description net s =
     try_except
       (and_then (getattr ''client'' client self s) (\<lambda>c s1.
        and_then (getattr ''message_model_id'' message_model_id self s1) (\<lambda>model s2.
        and_then (getattr ''message_model_temp'' message_model_temp self s2) (\<lambda>temp s3.
        and_then
          (await_call
             (Chat_completions_create model
                [Dict ''system'' (Str text_system_prompt),
                 Dict ''user'' (Str (text_user_prompt description))]
                100 temp) net s3)
          summary_of))))
       (\<lambda>e s'. (Inr ''No summary available'',
          logger ERROR [S ''Error summarizing description: '', E e] s'))"

definition link_system_prompt :: string where
  "link_system_prompt =
     ''Your purpose is to describe the content of a webpage based on its URL.''
     @ [CHR 0x0A] @ [CHR 0x0A]
     @ ''Extract any details you can from the names, titles, and descriptions in the URL.''
     @ [CHR 0x0A] @ [CHR 0x0A]
     @ ''Provide a concise, succint summary of the content that would be useful for someone who can''
     @ [CHR 0x27] @ ''t access the page.''"

definition link_user_prompt :: "string \<Rightarrow> string" where
  "link_user_prompt url =
     ''Please describe the content of the webpage at the following URL: '' @ url
     @ [CHR 0x0A] @ [CHR 0x0A] @ ''Description:''"

definition link_summarizer ::
  "nat \<Rightarrow> string \<Rightarrow> chat_completion outcome \<Rightarrow> world \<Rightarrow> (exn + string) \<times> world" where
  "link_summarizer self url net s =
     try_except
       (and_then (getattr ''client'' client self s) (\<lambda>c s1.
        and_then (getattr ''message_model_id'' message_model_id self s1) (\<lambda>model s2.
        and_then (getattr ''message_model_temp'' message_model_temp self s2) (\<lambda>temp s3.
        and_then
          (await_call
             (Chat_completions_create model
                [Dict ''system'' (Str link_system_prompt),
                 Dict ''user'' (Str (link_user_prompt url))]
                100 temp) net s3)
          summary_of))))
       (\<lambda>e s'. (Inr ''No summary available'',
          logger ERROR [S ''Error summarizing description: '', E e] s'))"

subsection \<open>\<^verbatim>\<open>determine_content_type\<close>\<close>

definition content_type_system_prompt :: string where
  "content_type_system_prompt =
     ''Based on the most recent message, reply with one word that best describes the type of response that would be most relevant and helpful: ''
     @ [CHR 0x27] @ ''message'' @ [CHR 0x27] @ '', '' @ [CHR 0x27] @ ''GIF'' @ [CHR 0x27]
     @ '', '' @ [CHR 0x27] @ ''YouTube'' @ [CHR 0x27] @ '', or '' @ [CHR 0x27] @ ''Website''
     @ [CHR 0x27] @ [CHR 0x0A]
     @ ''Do not provide any additional text or explanations.'' @ [CHR 0x0A]
     @ ''If the user asks for the latest news or current events, respond with ''
     @ [CHR 0x27] @ ''Website'' @ [CHR 0x27] @ ''.'' @ [CHR 0x0A]
     @ ''If a user responds with a Website, YouTube, or GIF, the bot should respond with a message.''
     @ [CHR 0x0A]
     @ ''**ONLY REPLY WITH ONE OF THE FOLLOWING WORDS:**: message, GIF, YouTube, or Website''"

definition content_type_question :: string where
  "content_type_question =
     ''Now determine the content type of your response: message, GIF, YouTube, or Website.''"

text \<open>
  The list display \<^verbatim>\<open>[{...}, *OAI_messages, {...}]\<close> stands before the \<^verbatim>\<open>try\<close>: it
  reads the caller's list at its address and makes a new list object. An address
  that holds no list is an argument that cannot be unpacked, a \<^verbatim>\<open>TypeError\<close> that
  leaves the method.
\<close>

definition build_messages :: "nat \<Rightarrow> world \<Rightarrow> (exn + nat) \<times> world" where
  "build_messages OAI_messages s =
     (if OAI_messages < length (list_store s) then
        (Inr (length (list_store s)),
         s\<lparr>list_store := list_store s @
              [Dict ''system'' (Str content_type_system_prompt)
               # (list_store s ! OAI_messages)
               @ [Dict ''user'' (Str content_type_question)]]\<rparr>)
      else (Inl (TypeError ''Value after * must be an iterable''), s))"

text \<open>The statements of the \<^verbatim>\<open>try\<close> block after the awaited call.\<close>

definition content_type_of :: "chat_completion \<Rightarrow> world \<Rightarrow> (exn + string option) \<times> world" where
  "content_type_of response s =
     and_then (first_choice response s) (\<lambda>c s1.
     and_then (strip_of (message_content c) s1) (\<lambda>stripped s2.
       (let content_type = lower stripped
        in if content_type \<in> set [''message'', ''gif'', ''youtube'', ''website'']
           then (Inr (Some content_type), s2)
           else (Inr None,
                 logger ERROR [S (''Invalid content type '' @ [CHR 0x27]), S content_type] s2))))"

definition determine_content_type ::
  "nat \<Rightarrow> nat \<Rightarrow> chat_completion outcome \<Rightarrow> world \<Rightarrow> (exn + string option) \<times> world" where
  "determine_content_type self OAI_messages net s =
     and_then (build_messages OAI_messages s)
       (\<lambda>messages s0.
          try_except
            (and_then (getattr ''client'' client self s0) (\<lambda>c s1.
             and_then (getattr ''chain_of_thought_model_id'' chain_of_thought_model_id self s1)
               (\<lambda>model s2.
             and_then (getattr ''chain_of_thought_temp'' chain_of_thought_temp self s2)
               (\<lambda>temp s3.
             and_then
               (await_call
                  (Chat_completions_create model (list_store s3 ! messages) 10 temp) net s3)
               content_type_of))))
            (\<lambda>e s'. (Inr None, logger ERROR [S ''Error determining content type: '', E e] s')))"

subsection \<open>Calls in flight on the event loop\<close>

text \<open>
  The other public operations, each with its arguments and the outcome of its
  awaited call. A request method reads the object before it awaits and only logs
  afterwards; \<open>exec\<close> runs such a call in one piece.
\<close>

datatype call =
    New
  | Get_instance
  | Create_asst_thread nat int "thread outcome"
  | Add_to_asst_thread nat string GLMessage "unit outcome"
  | Image_describer nat string "chat_completion outcome"
  | Text_summarizer nat string "chat_completion outcome"
  | Link_summarizer nat string "chat_completion outcome"
  | Determine_content_type nat nat "chat_completion outcome"
  | Request_asst_response nat string "unit outcome"

fun exec :: "config \<Rightarrow> call \<Rightarrow> world \<Rightarrow> world" where
  "exec cfg New s = snd (OpenAIClient_new s)"
| "exec cfg Get_instance s = snd (get_instance s)"
| "exec cfg (Create_asst_thread self user_id net) s = snd (create_asst_thread self user_id net s)"
| "exec cfg (Add_to_asst_thread self tid message net) s =
     snd (add_to_asst_thread self tid message net s)"
| "exec cfg (Image_describer self base64_str net) s = snd (image_describer self base64_str net s)"
| "exec cfg (Text_summarizer self description net) s =
     snd (text_summarizer self description net s)"
| "exec cfg (Link_summarizer self url net) s = snd (link_summarizer self url net s)"
| "exec cfg (Determine_content_type self OAI_messages net) s =
     snd (determine_content_type self OAI_messages net s)"
| "exec cfg (Request_asst_response self tid net) s =
     snd (request_asst_response cfg self tid net s)"

text \<open>
  A task is one call of \<^verbatim>\<open>OpenAIClient.create()\<close> handed to the event loop: not yet
  started, suspended at the retrieval (with the object and the lock it holds), or
  finished with the object it returns. The loop runs one task at a time, from
  where it stands to its next await or to its return. The event \<open>Task i net\<close> runs
  task \<open>i\<close>; \<open>net\<close> is the outcome of the retrieval when the task was waiting for it.
  The event \<open>Call c\<close> is another public operation carried out meanwhile. The
  event \<open>Caller_list xs\<close> is a caller making a list of message dictionaries of its
  own, which it may later hand to \<^verbatim>\<open>determine_content_type\<close>.
\<close>

datatype task = Not_started | Suspended nat nat | Finished nat

datatype event = Task nat "string outcome" | Call call | Caller_list "oai_message list"

fun run_task :: "config \<Rightarrow> string outcome \<Rightarrow> task \<Rightarrow> world \<Rightarrow> task \<times> world" where
  "run_task cfg net Not_started s =
     (case OpenAIClient_new s of
        (inst, s1) \<Rightarrow>
          (case async_init_enter cfg inst s1 of
             (Returned, s2) \<Rightarrow> (Finished inst, s2)
           | (At_retrieve l, s2) \<Rightarrow> (Suspended inst l, s2)))"
| "run_task cfg net (Suspended inst l) s = (Finished inst, async_init_resume cfg inst l net s)"
| "run_task cfg net (Finished inst) s = (Finished inst, s)"

fun step :: "config \<Rightarrow> task list \<times> world \<Rightarrow> event \<Rightarrow> task list \<times> world" where
  "step cfg (ts, s) (Task i net) =
     (if i < length ts
      then (case run_task cfg net (ts ! i) s of (t, s') \<Rightarrow> (ts[i := t], s'))
      else (ts, s))"
| "step cfg (ts, s) (Call c) = (ts, exec cfg c s)"
| "step cfg (ts, s) (Caller_list xs) = (ts, s\<lparr>list_store := list_store s @ [xs]\<rparr>)"

definition run :: "config \<Rightarrow> event list \<Rightarrow> task list \<times> world \<Rightarrow> task list \<times> world" where
  "run cfg evs sys = foldl (step cfg) sys evs"

text \<open>The process from its start with \<open>n\<close> calls of \<^verbatim>\<open>create()\<close> handed to the loop.\<close>

definition process :: "config \<Rightarrow> nat \<Rightarrow> event list \<Rightarrow> task list \<times> world" where
  "process cfg n evs = run cfg evs (replicate n Not_started, start)"

text \<open>The three (model id, temperature) pairs of an object.\<close>

definition model_config ::
  "OpenAIClient \<Rightarrow> (string option \<times> real option) \<times> (string option \<times> real option)
     \<times> (string option \<times> real option)" where
  "model_config ob =
     ((chain_of_thought_model_id ob, chain_of_thought_temp ob),
      (message_model_id ob, message_model_temp ob),
      (image_model_id ob, image_model_temp ob))"

fun is_retrieve :: "request \<Rightarrow> bool" where
  "is_retrieve (Assistants_retrieve _) = True"
| "is_retrieve _ = False"

text \<open>The pairs that \<^verbatim>\<open>async_init\<close> assigns from the configuration.\<close>

definition configured ::
  "config \<Rightarrow> (string option \<times> real option) \<times> (string option \<times> real option)
     \<times> (string option \<times> real option)" where
  "configured cfg =
     ((Some (COT_MODEL_ID cfg), Some (COT_MODEL_TEMP cfg)),
      (Some (MSG_MODEL_ID cfg), Some (MSG_MODEL_TEMP cfg)),
      (Some (IMG_MODEL_ID cfg), Some (IMG_MODEL_TEMP cfg)))"

subsection \<open>The invariant of the process\<close>

text \<open>
  What holds of the tasks and the objects however the loop interleaves them: a
  suspended task works on the singleton and has set its connection; a finished
  task returned the singleton, which is initialized; and an initialized object is
  the singleton, some task has finished on it, and it carries its connection and
  the configured pairs.
\<close>

fun task_ok :: "world \<Rightarrow> task \<Rightarrow> bool" where
  "task_ok s Not_started = True"
| "task_ok s (Suspended b l) = (cls_instance s = Some b \<and> client (heap s b) \<noteq> None)"
| "task_ok s (Finished b) = (cls_instance s = Some b \<and> initialized (heap s b))"

definition object_ok :: "config \<Rightarrow> task list \<Rightarrow> world \<Rightarrow> nat \<Rightarrow> bool" where
  "object_ok cfg ts s b =
     (cls_instance s = Some b \<and> Finished b \<in> set ts \<and> client (heap s b) \<noteq> None
      \<and> model_config (heap s b) = configured cfg)"

definition invariant :: "config \<Rightarrow> task list \<times> world \<Rightarrow> bool" where
  "invariant cfg sys =
     (case sys of (ts, s) \<Rightarrow>
        (\<forall>t \<in> set ts. task_ok s t) \<and> (\<forall>b. initialized (heap s b) \<longrightarrow> object_ok cfg ts s b))"

subsection \<open>Sample data\<close>

definition sample_config :: config where
  "sample_config =
     \<lparr>OPENAI_API_KEY = ''key'', COT_MODEL_ID = ''cot-model'', MSG_MODEL_ID = ''msg-model'',
      IMG_MODEL_ID = ''img-model'', COT_MODEL_TEMP = 0, MSG_MODEL_TEMP = 1, IMG_MODEL_TEMP = 1,
      ASSISTANT_ID = ''asst_1''\<rparr>"

text \<open>One call of \<^verbatim>\<open>create()\<close> run from start to return: two turns of its task.\<close>

definition sample_ready :: "event list" where
  "sample_ready = [Task 0 (Returns ''assistant''), Task 0 (Returns ''assistant'')]"

text \<open>The same, after a caller has made a list with one message.\<close>

definition sample_chat :: "event list" where
  "sample_chat = sample_ready @ [Caller_list [Dict ''user'' (Str ''show me a cat'')]]"

text \<open>
  Two calls of \<^verbatim>\<open>create()\<close>: the second starts while the first waits for the
  retrieval, then the first runs to its return.
\<close>

definition sample_race :: "event list" where
  "sample_race =
     [Task 0 (Returns ''assistant''), Task 1 (Returns ''assistant''),
      Task 0 (Returns ''assistant'')]"

section \<open>Properties\<close>

subsection \<open>What the request methods leave alone\<close>

lemmas basics =
  logger_def send_def getattr_def and_then_def try_except_def await_call_def
  update_obj_def release_def

lemma frame_create_asst_thread:
  "heap (snd (create_asst_thread self u net s)) = heap s"
  "cls_instance (snd (create_asst_thread self u net s)) = cls_instance s"
  "next_obj (snd (create_asst_thread self u net s)) = next_obj s"
  "locks (snd (create_asst_thread self u net s)) = locks s"
  "list_store (snd (create_asst_thread self u net s)) = list_store s"
  by (simp_all add: create_asst_thread_def basics split: option.splits outcome.splits)

lemma frame_add_to_asst_thread:
  "heap (snd (add_to_asst_thread self tid m net s)) = heap s"
  "cls_instance (snd (add_to_asst_thread self tid m net s)) = cls_instance s"
  "next_obj (snd (add_to_asst_thread self tid m net s)) = next_obj s"
  "locks (snd (add_to_asst_thread self tid m net s)) = locks s"
  "list_store (snd (add_to_asst_thread self tid m net s)) = list_store s"
  by (simp_all add: add_to_asst_thread_def basics split: option.splits outcome.splits)

lemma frame_image_describer:
  "heap (snd (image_describer self b net s)) = heap s"
  "cls_instance (snd (image_describer self b net s)) = cls_instance s"
  "next_obj (snd (image_describer self b net s)) = next_obj s"
  "locks (snd (image_describer self b net s)) = locks s"
  "list_store (snd (image_describer self b net s)) = list_store s"
  by (simp_all add: image_describer_def basics split: option.splits outcome.splits)

lemma frame_text_summarizer:
  "heap (snd (text_summarizer self d net s)) = heap s"
  "cls_instance (snd (text_summarizer self d net s)) = cls_instance s"
  "next_obj (snd (text_summarizer self d net s)) = next_obj s"
  "locks (snd (text_summarizer self d net s)) = locks s"
  "list_store (snd (text_summarizer self d net s)) = list_store s"
  by (simp_all add: text_summarizer_def summary_of_def strip_of_def basics
        split: option.splits outcome.splits list.splits)

lemma frame_link_summarizer:
  "heap (snd (link_summarizer self url net s)) = heap s"
  "cls_instance (snd (link_summarizer self url net s)) = cls_instance s"
  "next_obj (snd (link_summarizer self url net s)) = next_obj s"
  "locks (snd (link_summarizer self url net s)) = locks s"
  "list_store (snd (link_summarizer self url net s)) = list_store s"
  by (simp_all add: link_summarizer_def summary_of_def strip_of_def basics
        split: option.splits outcome.splits list.splits)

lemma frame_request_asst_response:
  "heap (snd (request_asst_response cfg self tid net s)) = heap s"
  "cls_instance (snd (request_asst_response cfg self tid net s)) = cls_instance s"
  "next_obj (snd (request_asst_response cfg self tid net s)) = next_obj s"
  "locks (snd (request_asst_response cfg self tid net s)) = locks s"
  "list_store (snd (request_asst_response cfg self tid net s)) = list_store s"
  by (simp_all add: request_asst_response_def basics split: option.splits outcome.splits)

lemma frame_determine_content_type:
  "heap (snd (determine_content_type self ms net s)) = heap s"
  "cls_instance (snd (determine_content_type self ms net s)) = cls_instance s"
  "next_obj (snd (determine_content_type self ms net s)) = next_obj s"
  "locks (snd (determine_content_type self ms net s)) = locks s"
  by (simp_all add: determine_content_type_def build_messages_def content_type_of_def
        first_choice_def strip_of_def basics Let_def
        split: option.splits outcome.splits list.splits)

lemmas frames =
  frame_create_asst_thread frame_add_to_asst_thread frame_image_describer
  frame_text_summarizer frame_link_summarizer frame_request_asst_response
  frame_determine_content_type

subsection \<open>What the singleton's operations do to the objects\<close>

lemma new_cases:
  "OpenAIClient_new s = (a, s') \<Longrightarrow>
     (cls_instance s = Some a \<and> s' = s) \<or>
     (cls_instance s = None \<and> a = next_obj s \<and> heap s' = (heap s)(a := blank)
        \<and> cls_instance s' = Some a)"
  by (auto simp: OpenAIClient_new_def Let_def split: option.splits)

lemma new_cls: "cls_instance (snd (OpenAIClient_new s)) = Some (fst (OpenAIClient_new s))"
  by (simp add: OpenAIClient_new_def Let_def split: option.splits)

lemma new_again: "cls_instance s = Some a \<Longrightarrow> OpenAIClient_new s = (a, s)"
  by (simp add: OpenAIClient_new_def)

lemma enter_cases:
  "async_init_enter cfg a s = (pc, s') \<Longrightarrow>
     (initialized (heap s a) \<and> pc = Returned \<and> s' = s) \<or>
     (\<not> initialized (heap s a) \<and> (\<exists>l. pc = At_retrieve l)
        \<and> heap s' = (heap s)(a := (heap s a)\<lparr>client := Some (AsyncOpenAI (OPENAI_API_KEY cfg))\<rparr>)
        \<and> cls_instance s' = cls_instance s)"
  by (auto simp: async_init_enter_def Let_def basics split: if_splits)

lemma resume_heap:
  "initialized (heap (async_init_resume cfg a l net s) b) = (b = a \<or> initialized (heap s b))"
  "client (heap (async_init_resume cfg a l net s) b) = client (heap s b)"
  "model_config (heap (async_init_resume cfg a l net s) b) =
     (if b = a then configured cfg else model_config (heap s b))"
  "cls_instance (async_init_resume cfg a l net s) = cls_instance s"
  by (auto simp: async_init_resume_def Let_def basics model_config_def configured_def
        split: outcome.splits)

lemma async_init_cls: "cls_instance (async_init cfg a net s) = cls_instance s"
  by (auto simp: async_init_def resume_heap split: prod.splits init_pc.splits dest: enter_cases)

lemma async_init_initialized: "initialized (heap (async_init cfg a net s) a)"
  by (auto simp: async_init_def resume_heap split: prod.splits init_pc.splits dest: enter_cases)

lemma async_init_again: "initialized (heap s a) \<Longrightarrow> async_init cfg a net s = s"
  by (simp add: async_init_def async_init_enter_def)

lemma create_ready:
  "cls_instance (snd (create cfg net s)) = Some (fst (create cfg net s))"
  "initialized (heap (snd (create cfg net s)) (fst (create cfg net s)))"
  by (simp_all add: create_def async_init_cls async_init_initialized new_cls split: prod.splits)
   (metis fst_conv new_cls snd_conv)

lemma create_when_ready:
  "cls_instance s = Some a \<Longrightarrow> initialized (heap s a) \<Longrightarrow> create cfg net s = (a, s)"
  by (simp add: create_def new_again async_init_again)

subsection \<open>The invariant holds in every state of the process\<close>

lemma exec_cases:
  "(heap (exec cfg c s) = heap s \<and> cls_instance (exec cfg c s) = cls_instance s) \<or>
   (cls_instance s = None \<and> heap (exec cfg c s) = (heap s)(next_obj s := blank)
      \<and> cls_instance (exec cfg c s) = Some (next_obj s))"
  by (cases c) (auto simp: frames get_instance_def OpenAIClient_new_def Let_def split: option.splits prod.splits)

lemma set_update_keep: "x \<in> set ts \<Longrightarrow> ts ! i \<noteq> x \<Longrightarrow> x \<in> set (ts[i := y])"
  by (metis in_set_conv_nth length_list_update nth_list_update_neq)

lemma set_update_cases: "x \<in> set (ts[i := y]) \<Longrightarrow> x = y \<or> x \<in> set ts"
  using set_update_subset_insert [of ts i y] by auto

lemma blank_fields [simp]: "\<not> initialized blank" "client blank = None"
  by (simp_all add: blank_def)

lemma invariant_start: "invariant cfg (replicate n Not_started, start)"
  by (auto simp: invariant_def start_def)

lemma no_object_yet:
  assumes "invariant cfg (ts, s)" "cls_instance s = None"
  shows "\<not> initialized (heap s b)" "t \<in> set ts \<Longrightarrow> t = Not_started"
proof -
  show "\<not> initialized (heap s b)" using assms by (auto simp: invariant_def object_ok_def)
  show "t \<in> set ts \<Longrightarrow> t = Not_started" using assms
    by (cases t) (auto simp: invariant_def)
qed

lemma invariant_alloc:
  assumes "invariant cfg (ts, s)" "cls_instance s = None"
    "heap s' = (heap s)(a := blank)" "cls_instance s' = Some a"
  shows "invariant cfg (ts, s')"
  unfolding invariant_def
proof (clarsimp, intro conjI ballI allI impI)
  fix t assume "t \<in> set ts"
  then have "t = Not_started" using no_object_yet(2) [OF assms(1,2)] by blast
  then show "task_ok s' t" by simp
next
  fix b assume "initialized (heap s' b)"
  then have False using assms(3) no_object_yet(1) [OF assms(1,2), of b] by (auto split: if_splits)
  then show "object_ok cfg ts s' b" ..
qed

lemma invariant_same:
  assumes "invariant cfg (ts, s)" "heap s' = heap s" "cls_instance s' = cls_instance s"
  shows "invariant cfg (ts, s')"
proof -
  have "task_ok s' t = task_ok s t" for t using assms(2,3) by (cases t) simp_all
  moreover have "object_ok cfg ts s' b = object_ok cfg ts s b" for b
    using assms(2,3) by (simp add: object_ok_def)
  ultimately show ?thesis using assms(1,2) by (simp add: invariant_def)
qed

lemma invariant_call: "invariant cfg (ts, s) \<Longrightarrow> invariant cfg (ts, exec cfg c s)"
  using exec_cases [of cfg c s] by (auto intro: invariant_same invariant_alloc)

lemma invariant_new:
  assumes "invariant cfg (ts, s)" "OpenAIClient_new s = (a, s1)"
  shows "invariant cfg (ts, s1)" "cls_instance s1 = Some a"
  using new_cases [OF assms(2)] assms(1) by (auto intro: invariant_alloc)

lemma invariant_suspend:
  assumes inv: "invariant cfg (ts, s1)" and cls: "cls_instance s1 = Some a"
    and fresh: "\<not> initialized (heap s1 a)"
    and heap: "heap s2 = (heap s1)(a := (heap s1 a)\<lparr>client := Some c\<rparr>)"
    and cls2: "cls_instance s2 = cls_instance s1"
  shows "invariant cfg (ts[i := Suspended a l], s2)"
  unfolding invariant_def
proof (clarsimp, intro conjI ballI allI impI)
  fix t assume "t \<in> set (ts[i := Suspended a l])"
  then consider "t = Suspended a l" | "t \<in> set ts" using set_update_cases by fastforce
  then show "task_ok s2 t"
  proof cases
    case 1 then show ?thesis using cls cls2 heap by simp
  next
    case 2
    then have "task_ok s1 t" using inv by (auto simp: invariant_def)
    then show ?thesis using cls2 heap by (cases t) auto
  qed
next
  fix b assume "initialized (heap s2 b)"
  then have "initialized (heap s1 b)" using heap by (auto split: if_splits)
  then have "object_ok cfg ts s1 b" using inv by (auto simp: invariant_def)
  then have "b = a" using cls by (simp add: object_ok_def)
  then have False using fresh \<open>initialized (heap s1 b)\<close> by simp
  then show "object_ok cfg (ts[i := Suspended a l]) s2 b" ..
qed

lemma invariant_returned:
  assumes inv: "invariant cfg (ts, s)" and cls: "cls_instance s = Some a"
    and init: "initialized (heap s a)" and i: "i < length ts" and ti: "ts ! i = Not_started"
  shows "invariant cfg (ts[i := Finished a], s)"
  unfolding invariant_def
proof (clarsimp, intro conjI ballI allI impI)
  fix t assume "t \<in> set (ts[i := Finished a])"
  then consider "t = Finished a" | "t \<in> set ts" using set_update_cases by fastforce
  then show "task_ok s t"
    using cls init inv by cases (auto simp: invariant_def)
next
  fix b assume "initialized (heap s b)"
  then have ok: "object_ok cfg ts s b" using inv by (auto simp: invariant_def)
  then have "Finished b \<in> set (ts[i := Finished a])"
    using ti by (auto simp: object_ok_def intro: set_update_keep)
  then show "object_ok cfg (ts[i := Finished a]) s b" using ok by (simp add: object_ok_def)
qed

lemma invariant_resume:
  assumes inv: "invariant cfg (ts, s)" and i: "i < length ts" and ti: "ts ! i = Suspended a l"
  shows "invariant cfg (ts[i := Finished a], async_init_resume cfg a l net s)"
  unfolding invariant_def
proof (clarsimp, intro conjI ballI allI impI)
  have "Suspended a l \<in> set ts" using i ti by (metis nth_mem)
  then have "task_ok s (Suspended a l)" using inv by (auto simp: invariant_def)
  then have cls: "cls_instance s = Some a" and cl: "client (heap s a) \<noteq> None" by simp_all
  {
    fix t assume "t \<in> set (ts[i := Finished a])"
    then consider "t = Finished a" | "t \<in> set ts" using set_update_cases by fastforce
    then show "task_ok (async_init_resume cfg a l net s) t"
    proof cases
      case 1 then show ?thesis using cls by (simp add: resume_heap)
    next
      case 2
      then have "task_ok s t" using inv by (auto simp: invariant_def)
      then show ?thesis by (cases t) (auto simp: resume_heap)
    qed
  next
    fix b assume "initialized (heap (async_init_resume cfg a l net s) b)"
    then have "b = a \<or> initialized (heap s b)" by (simp add: resume_heap)
    moreover have "b = a" if "initialized (heap s b)"
    proof -
      have "object_ok cfg ts s b" using that inv by (auto simp: invariant_def)
      then show ?thesis using cls by (simp add: object_ok_def)
    qed
    ultimately have "b = a" by blast
    moreover have "Finished a \<in> set (ts[i := Finished a])" using i by (simp add: set_update_memI)
    ultimately show "object_ok cfg (ts[i := Finished a]) (async_init_resume cfg a l net s) b"
      using cls cl by (simp add: object_ok_def resume_heap)
  }
qed

lemma invariant_task:
  assumes inv: "invariant cfg (ts, s)" and i: "i < length ts"
    and r: "run_task cfg net (ts ! i) s = (t, s')"
  shows "invariant cfg (ts[i := t], s')"
proof (cases "ts ! i")
  case Not_started
  obtain inst s1 where n: "OpenAIClient_new s = (inst, s1)" by (cases "OpenAIClient_new s")
  obtain pc s2 where e: "async_init_enter cfg inst s1 = (pc, s2)"
    by (cases "async_init_enter cfg inst s1")
  note inv1 = invariant_new [OF inv n]
  from enter_cases [OF e] show ?thesis
  proof (elim disjE conjE exE)
    assume "initialized (heap s1 inst)" "pc = Returned" "s2 = s1"
    moreover from this have "t = Finished inst" "s' = s1"
      using r n e Not_started by simp_all
    ultimately show ?thesis
      using inv1 i Not_started by (simp add: invariant_returned)
  next
    fix l
    assume "\<not> initialized (heap s1 inst)" "pc = At_retrieve l"
      "heap s2 = (heap s1)(inst := (heap s1 inst)\<lparr>client := Some (AsyncOpenAI (OPENAI_API_KEY cfg))\<rparr>)"
      "cls_instance s2 = cls_instance s1"
    moreover from this have "t = Suspended inst l" "s' = s2"
      using r n e Not_started by simp_all
    ultimately show ?thesis
      using inv1 by (simp add: invariant_suspend)
  qed
next
  case (Suspended a l)
  moreover from this have "t = Finished a" "s' = async_init_resume cfg a l net s"
    using r by simp_all
  ultimately show ?thesis using inv i by (simp add: invariant_resume)
next
  case (Finished a)
  then have "t = ts ! i" "s' = s"
    using r by simp_all
  then show ?thesis using inv by (simp add: list_update_id)
qed

lemma invariant_step: "invariant cfg sys \<Longrightarrow> invariant cfg (step cfg sys ev)"
proof (cases sys, cases ev)
  fix ts s i net
  assume "invariant cfg sys" "sys = (ts, s)" "ev = Task i net"
  then show ?thesis
    by (cases "run_task cfg net (ts ! i) s") (auto simp: invariant_task)
next
  fix ts s c
  assume "invariant cfg sys" "sys = (ts, s)" "ev = Call c"
  then show ?thesis by (simp add: invariant_call)
next
  fix ts s xs
  assume "invariant cfg sys" "sys = (ts, s)" "ev = Caller_list xs"
  then show ?thesis by (simp add: invariant_same)
qed

lemma invariant_run: "invariant cfg sys \<Longrightarrow> invariant cfg (run cfg evs sys)"
  unfolding run_def by (induction evs arbitrary: sys) (simp_all add: invariant_step)

lemma invariant_process: "invariant cfg (process cfg n evs)"
  unfolding process_def by (rule invariant_run) (rule invariant_start)

subsection \<open>Initialized objects in the process\<close>

lemma run_append: "run cfg (evs @ evs') sys = run cfg evs' (run cfg evs sys)"
  by (simp add: run_def)

lemma initialized_step:
  assumes inv: "invariant cfg (ts, s)" and init: "initialized (heap s a)"
    and st: "step cfg (ts, s) ev = (ts', s')"
  shows "initialized (heap s' a)"
proof -
  have ok: "object_ok cfg ts s a" using inv init by (auto simp: invariant_def)
  then have cls: "cls_instance s = Some a" by (simp add: object_ok_def)
  show ?thesis
  proof (cases ev)
    case (Call c)
    then show ?thesis using exec_cases [of cfg c s] st cls init by auto
  next
    case (Caller_list xs)
    then show ?thesis using st init by auto
  next
    case (Task i net)
    show ?thesis
    proof (cases "i < length ts")
      case False
      then show ?thesis using Task st init by simp
    next
      case True
      show ?thesis
      proof (cases "ts ! i")
        case Not_started
        then show ?thesis
          using Task True st cls init
          by (auto simp: new_again async_init_enter_def split: prod.splits)
      next
        case (Suspended b l)
        then show ?thesis
          using Task True st init by (auto simp: resume_heap split: prod.splits)
      next
        case (Finished b)
        then show ?thesis
          using Task True st init by (auto split: prod.splits)
      qed
    qed
  qed
qed

lemma initialized_run:
  "invariant cfg sys \<Longrightarrow> initialized (heap (snd sys) a) \<Longrightarrow>
     initialized (heap (snd (run cfg evs sys)) a)"
proof (induction evs arbitrary: sys)
  case Nil
  then show ?case by (simp add: run_def)
next
  case (Cons ev evs)
  obtain ts s where sys: "sys = (ts, s)" by (cases sys)
  obtain ts' s' where st: "step cfg (ts, s) ev = (ts', s')" by (cases "step cfg (ts, s) ev")
  have "invariant cfg (ts', s')" using Cons.prems(1) sys st invariant_step by metis
  moreover have "initialized (heap s' a)"
    using initialized_step [OF _ _ st] Cons.prems sys by simp
  ultimately have "initialized (heap (snd (run cfg evs (ts', s'))) a)"
    using Cons.IH by simp
  then show ?case using sys st by (simp add: run_def)
qed

lemma ready_object:
  assumes "process cfg n evs = (ts, s)" "initialized (heap s a)"
  shows "object_ok cfg ts s a"
  using invariant_process [of cfg n evs] assms by (auto simp: invariant_def)

lemma ready_fields:
  assumes "process cfg n evs = (ts, s)" "initialized (heap s a)"
  shows "\<exists>c. client (heap s a) = Some c"
    and "chain_of_thought_model_id (heap s a) = Some (COT_MODEL_ID cfg)"
    and "chain_of_thought_temp (heap s a) = Some (COT_MODEL_TEMP cfg)"
    and "message_model_id (heap s a) = Some (MSG_MODEL_ID cfg)"
    and "message_model_temp (heap s a) = Some (MSG_MODEL_TEMP cfg)"
    and "image_model_id (heap s a) = Some (IMG_MODEL_ID cfg)"
    and "image_model_temp (heap s a) = Some (IMG_MODEL_TEMP cfg)"
  using ready_object [OF assms] by (auto simp: object_ok_def model_config_def configured_def)

text \<open>
  A call of \<^verbatim>\<open>create()\<close> that nothing interrupts is its task run twice: up to the
  retrieval, and from there to the return.
\<close>

lemma create_as_task:
  "run cfg [Task 0 net', Task 0 net] ([Not_started], s)
     = ([Finished (fst (create cfg net s))], snd (create cfg net s))"
  by (auto simp: run_def create_def async_init_def split: prod.splits init_pc.splits)

subsection \<open>Sample states\<close>

lemmas singleton_defs =
  OpenAIClient_new_def async_init_enter_def async_init_resume_def async_init_def create_def
  get_instance_def

lemmas sample_eval =
  process_def run_def start_def sample_ready_def sample_race_def sample_chat_def
  singleton_defs basics Let_def
  eval_nat_numeral

lemma sample_one_suspended:
  "fst (process sample_config 2 [Task 0 (Returns ''assistant'')]) = [Suspended 0 0, Not_started]"
  by (simp add: sample_eval)

lemma sample_ready_tasks: "fst (process sample_config 1 sample_ready) = [Finished 0]"
  by (simp add: sample_eval)

lemma sample_ready_initialized:
  "initialized (heap (snd (process sample_config 1 sample_ready)) 0)"
  by (simp add: sample_eval)

lemma sample_chat_initialized:
  "initialized (heap (snd (process sample_config 1 sample_chat)) 0)"
  by (simp add: sample_eval)

lemma sample_chat_lists:
  "list_store (snd (process sample_config 1 sample_chat)) = [[Dict ''user'' (Str ''show me a cat'')]]"
  by (simp add: sample_eval)

lemma sample_chat_sent:
  "sent (snd (process sample_config 1 sample_chat)) = [Assistants_retrieve ''asst_1'']"
  by (simp add: sample_eval sample_config_def)

lemma sample_chat_logged:
  "logged (snd (process sample_config 1 sample_chat))
     = [(INFO, [S ''Assistant '', S ''asst_1'', S '' retrieved successfully.''])]"
  by (simp add: sample_eval sample_config_def)

lemma sample_race_initialized:
  "initialized (heap (snd (process sample_config 2 sample_race)) 0)"
  by (simp add: sample_eval)

lemma sample_race_tasks:
  "fst (process sample_config 2 sample_race) = [Finished 0, Suspended 0 1]"
  by (simp add: sample_eval)

subsection \<open>The synchronous accessor\<close>

text \<open>
  C4: in every state the process can reach, with any number of \<^verbatim>\<open>create()\<close> calls
  in flight and any other calls in between, \<^verbatim>\<open>get_instance\<close> raises the
  \<^verbatim>\<open>RuntimeError\<close> as long as no call of \<^verbatim>\<open>create()\<close> has returned, also while the
  object exists and is half set up; and once a call of \<^verbatim>\<open>create()\<close> has returned an
  object, \<^verbatim>\<open>get_instance\<close> returns that same object and changes nothing.
\<close>

theorem get_instance_only_when_ready:
  assumes "process cfg n evs = (ts, s)"
  shows "((\<forall>a. Finished a \<notin> set ts) \<longrightarrow>
            fst (get_instance s) = Inl (RuntimeError not_initialized_message))
       \<and> (\<forall>a. Finished a \<in> set ts \<longrightarrow> get_instance s = (Inr a, s))"
proof (intro conjI allI impI)
  have inv: "invariant cfg (ts, s)" using invariant_process [of cfg n evs] assms by simp
  {
    assume none: "\<forall>a. Finished a \<notin> set ts"
    obtain inst s1 where n: "OpenAIClient_new s = (inst, s1)" by (cases "OpenAIClient_new s")
    have "invariant cfg (ts, s1)" using invariant_new(1) [OF inv n] .
    then have "\<not> initialized (heap s1 inst)"
      using none by (auto simp: invariant_def object_ok_def)
    then show "fst (get_instance s) = Inl (RuntimeError not_initialized_message)"
      using n by (simp add: get_instance_def)
  next
    fix a assume "Finished a \<in> set ts"
    then have "task_ok s (Finished a)" using inv by (auto simp: invariant_def)
    then show "get_instance s = (Inr a, s)"
      by (simp add: get_instance_def new_again)
  }
qed

theorem get_instance_only_when_ready_witness:
  "fst (get_instance (snd (process sample_config 2 [Task 0 (Returns ''assistant'')])))
     = Inl (RuntimeError not_initialized_message)
   \<and> get_instance (snd (process sample_config 1 sample_ready))
     = (Inr 0, snd (process sample_config 1 sample_ready))"
proof -
  have waiting:
    "process sample_config 2 [Task 0 (Returns ''assistant'')]
       = ([Suspended 0 0, Not_started],
          snd (process sample_config 2 [Task 0 (Returns ''assistant'')]))"
    using sample_one_suspended by (metis prod.collapse)
  have ready:
    "process sample_config 1 sample_ready
       = ([Finished 0], snd (process sample_config 1 sample_ready))"
    using sample_ready_tasks by (metis prod.collapse)
  show ?thesis
    using get_instance_only_when_ready [OF waiting] get_instance_only_when_ready [OF ready]
    by simp
qed

subsection \<open>The model configuration\<close>

text \<open>
  C9: once an object is initialized in a state of the process, its three
  (model id, temperature) pairs stay what they are through whatever happens next:
  calls of \<^verbatim>\<open>create()\<close> that start, resume or finish, \<^verbatim>\<open>OpenAIClient()\<close>,
  \<^verbatim>\<open>get_instance\<close> and the seven request methods. The pairs are the configured ones
  and the object stays initialized.
\<close>

theorem model_config_immutable:
  assumes "process cfg n evs = (ts, s)" and "initialized (heap s a)"
  shows "initialized (heap (snd (run cfg evs' (ts, s))) a)
     \<and> model_config (heap (snd (run cfg evs' (ts, s))) a) = model_config (heap s a)
     \<and> model_config (heap s a) = configured cfg"
proof -
  have inv: "invariant cfg (ts, s)" using invariant_process [of cfg n evs] assms(1) by simp
  have i': "initialized (heap (snd (run cfg evs' (ts, s))) a)"
    using initialized_run [OF inv, of a evs'] assms(2) by simp
  have p: "process cfg n (evs @ evs') = run cfg evs' (ts, s)"
    using assms(1) by (simp add: process_def run_append)
  obtain ts' s' where r: "run cfg evs' (ts, s) = (ts', s')" by (cases "run cfg evs' (ts, s)")
  have "object_ok cfg ts' s' a"
    using ready_object [of cfg n "evs @ evs'" ts' s' a] p r i' by simp
  moreover have "object_ok cfg ts s a" using ready_object [OF assms] .
  ultimately show ?thesis using i' r by (simp add: object_ok_def)
qed

theorem model_config_immutable_witness:
  "initialized (heap (snd (process sample_config 2 sample_race)) 0)
   \<and> model_config (heap (snd (run sample_config
         [Task 1 (Raises (SDKException ''down'')), Call Get_instance]
         (process sample_config 2 sample_race))) 0)
     = configured sample_config"
  using model_config_immutable
          [OF prod.collapse [symmetric] sample_race_initialized,
           of "[Task 1 (Raises (SDKException ''down'')), Call Get_instance]"]
        sample_race_initialized
  by simp

subsection \<open>The factory called again\<close>

text \<open>
  C8: after \<^verbatim>\<open>create()\<close> has returned, a second \<^verbatim>\<open>create()\<close> returns the same object
  and leaves the whole state as it was: nothing more is sent to the service, so the
  assistant is not retrieved again, and the three configuration pairs of the object
  are the ones the first call set. This holds from every state and whatever the
  two retrievals would answer.
\<close>

theorem create_twice_same_instance:
  "(case create cfg net1 s of
      (inst, s1) \<Rightarrow>
        create cfg net2 s1 = (inst, s1)
        \<and> sent (snd (create cfg net2 s1)) = sent s1
        \<and> model_config (heap (snd (create cfg net2 s1)) (fst (create cfg net2 s1)))
            = model_config (heap s1 inst))"
proof -
  obtain inst s1 where c: "create cfg net1 s = (inst, s1)"
    by (cases "create cfg net1 s")
  have "cls_instance s1 = Some inst" and "initialized (heap s1 inst)"
    using create_ready [of cfg net1 s] c by simp_all
  then have "create cfg net2 s1 = (inst, s1)"
    by (rule create_when_ready)
  then show ?thesis
    using c by simp
qed

subsection \<open>The caller's list of messages\<close>

text \<open>
  C10: \<^verbatim>\<open>determine_content_type\<close> does not change the caller's list. Every list that
  existed before the call has the same elements in the same order afterwards,
  whether the awaited call returns or raises; the outgoing messages are a new list
  object made of the system message, the elements of the caller's list and the
  final question.
\<close>

theorem determine_content_type_keeps_caller_list:
  "take (length (list_store s)) (list_store (snd (determine_content_type self ms net s)))
     = list_store s
   \<and> list_store (snd (determine_content_type self ms net s)) =
       (if ms < length (list_store s)
        then list_store s @ [Dict ''system'' (Str content_type_system_prompt)
                              # (list_store s ! ms) @ [Dict ''user'' (Str content_type_question)]]
        else list_store s)"
  by (simp add: determine_content_type_def build_messages_def content_type_of_def
        first_choice_def strip_of_def basics Let_def
        split: option.splits outcome.splits list.splits)

subsection \<open>Concurrent calls of the factory\<close>

text \<open>
  C1: two calls of \<^verbatim>\<open>create()\<close> on the event loop, the second started while the
  first waits for the retrieval. Each call makes a lock of its own, so both locks
  are held at once and neither call waits for the other; both find the flag unset
  and both send the request: the assistant is retrieved twice. When the first
  retrieval returns and the second raises, the caller that finished first has seen
  the assistant set, and the second caller's handler then sets it to \<^verbatim>\<open>None\<close> on
  the same object.
\<close>

theorem concurrent_create_retrieves_twice:
  "sent (snd (process cfg 2 [Task 0 net0, Task 1 net1, Task 0 (Returns a), Task 1 (Raises e)]))
     = [Assistants_retrieve (ASSISTANT_ID cfg), Assistants_retrieve (ASSISTANT_ID cfg)]
   \<and> locks (snd (process cfg 2 [Task 0 net0, Task 1 net1])) = [True, True]
   \<and> fst (process cfg 2 [Task 0 net0, Task 1 net1, Task 0 (Returns a)])
       = [Finished 0, Suspended 0 1]
   \<and> assistant (heap (snd (process cfg 2 [Task 0 net0, Task 1 net1, Task 0 (Returns a)])) 0)
       = Some (Some a)
   \<and> fst (process cfg 2 [Task 0 net0, Task 1 net1, Task 0 (Returns a), Task 1 (Raises e)])
       = [Finished 0, Finished 0]
   \<and> assistant (heap (snd (process cfg 2
         [Task 0 net0, Task 1 net1, Task 0 (Returns a), Task 1 (Raises e)])) 0)
       = Some None"
  by (simp add: sample_eval)

subsection \<open>\<^verbatim>\<open>image_describer\<close>\<close>

text \<open>
  C2: on an initialized client, for a response with one choice whose text has a
  space at each end, \<^verbatim>\<open>image_describer\<close> returns the text as it came, spaces
  included, where \<^verbatim>\<open>strip\<close> would have removed them; and for a choice whose
  content is \<^verbatim>\<open>None\<close> it returns \<^verbatim>\<open>None\<close>. The two summarizers apply \<^verbatim>\<open>strip\<close> to
  the same expression.
\<close>

theorem image_describer_returns_untrimmed:
  "fst (image_describer 0 base64_str
          (Returns (ChatCompletion [Choice (Some '' A red bicycle. '')]))
          (snd (process sample_config 1 sample_ready)))
     = Inr (Some '' A red bicycle. '')
   \<and> strip '' A red bicycle. '' = ''A red bicycle.''
   \<and> fst (image_describer 0 base64_str (Returns (ChatCompletion [Choice None]))
          (snd (process sample_config 1 sample_ready)))
     = Inr None"
  by (simp add: sample_eval image_describer_def strip_def isspace_def)

subsection \<open>\<^verbatim>\<open>determine_content_type\<close>: the word returned\<close>

lemma lower_GIF: "lower (strip ''GIF'') = ''gif''"
  by code_simp

lemma lower_Maybe: "lower (strip ''Maybe?'') = ''maybe?''"
  by code_simp

text \<open>
  C3: on an initialized client and a list of the caller's, when the awaited call
  returns a response whose first choice has the text \<open>t\<close>, the method strips and
  lower-cases \<open>t\<close>; it returns that word when it is one of \<^verbatim>\<open>message\<close>, \<^verbatim>\<open>gif\<close>,
  \<^verbatim>\<open>youtube\<close>, \<^verbatim>\<open>website\<close> and logs nothing; otherwise it returns \<^verbatim>\<open>None\<close> and logs
  one error record with the word. The text \<^verbatim>\<open>GIF\<close> gives \<^verbatim>\<open>gif\<close>; the text
  \<^verbatim>\<open>Maybe?\<close> gives \<^verbatim>\<open>None\<close> and the record.
\<close>

theorem determine_content_type_classifies:
  assumes "process cfg n evs = (ts, s)" and "initialized (heap s self)"
    and "OAI_messages < length (list_store s)"
  shows "fst (determine_content_type self OAI_messages
                (Returns (ChatCompletion (Choice (Some t) # cs))) s)
           = Inr (if lower (strip t) \<in> set [''message'', ''gif'', ''youtube'', ''website'']
                  then Some (lower (strip t)) else None)
     \<and> logged (snd (determine_content_type self OAI_messages
                (Returns (ChatCompletion (Choice (Some t) # cs))) s))
           = (if lower (strip t) \<in> set [''message'', ''gif'', ''youtube'', ''website'']
              then logged s
              else logged s @ [(ERROR, [S (''Invalid content type '' @ [CHR 0x27]),
                                         S (lower (strip t))])])
     \<and> fst (determine_content_type self OAI_messages
                (Returns (ChatCompletion [Choice (Some ''GIF'')])) s) = Inr (Some ''gif'')
     \<and> fst (determine_content_type self OAI_messages
                (Returns (ChatCompletion [Choice (Some ''Maybe?'')])) s) = Inr None
     \<and> logged (snd (determine_content_type self OAI_messages
                (Returns (ChatCompletion [Choice (Some ''Maybe?'')])) s))
           = logged s @ [(ERROR, [S (''Invalid content type '' @ [CHR 0x27]), S ''maybe?''])]"
proof -
  obtain c where c: "client (heap s self) = Some c"
    using ready_fields(1) [OF assms(1,2)] by blast
  have general: "determine_content_type self OAI_messages
                (Returns (ChatCompletion (Choice (Some u) # us))) s
      = (let s' = send (Chat_completions_create (COT_MODEL_ID cfg)
                   (Dict ''system'' (Str content_type_system_prompt)
                     # (list_store s ! OAI_messages)
                     @ [Dict ''user'' (Str content_type_question)]) 10 (COT_MODEL_TEMP cfg))
                   (s\<lparr>list_store := list_store s @
                       [Dict ''system'' (Str content_type_system_prompt)
                        # (list_store s ! OAI_messages)
                        @ [Dict ''user'' (Str content_type_question)]]\<rparr>)
         in if lower (strip u) \<in> set [''message'', ''gif'', ''youtube'', ''website'']
            then (Inr (Some (lower (strip u))), s')
            else (Inr None, logger ERROR [S (''Invalid content type '' @ [CHR 0x27]),
                                         S (lower (strip u))] s'))" for u us
    using c ready_fields(2,3) [OF assms(1,2)] assms(3)
    by (simp add: determine_content_type_def build_messages_def content_type_of_def
          first_choice_def strip_of_def and_then_def try_except_def await_call_def getattr_def Let_def)
  show ?thesis
    unfolding general
    by (simp add: Let_def logger_def send_def lower_GIF lower_Maybe)
qed

theorem determine_content_type_classifies_witness:
  "fst (determine_content_type 0 0 (Returns (ChatCompletion [Choice (Some ''GIF'')]))
          (snd (process sample_config 1 sample_chat))) = Inr (Some ''gif'')
   \<and> fst (determine_content_type 0 0 (Returns (ChatCompletion [Choice (Some ''Maybe?'')]))
          (snd (process sample_config 1 sample_chat))) = Inr None
   \<and> logged (snd (determine_content_type 0 0
          (Returns (ChatCompletion [Choice (Some ''Maybe?'')]))
          (snd (process sample_config 1 sample_chat))))
       = [(INFO, [S ''Assistant '', S ''asst_1'', S '' retrieved successfully.'']),
          (ERROR, [S (''Invalid content type '' @ [CHR 0x27]), S ''maybe?''])]"
proof -
  have lists: "0 < length (list_store (snd (process sample_config 1 sample_chat)))"
    unfolding sample_chat_lists by simp
  show ?thesis
    using determine_content_type_classifies
            [OF prod.collapse [symmetric] sample_chat_initialized lists, of "''GIF''" "[]"]
          sample_chat_logged
    by (simp add: lower_GIF)
qed

subsection \<open>\<^verbatim>\<open>determine_content_type\<close>: the messages sent\<close>

text \<open>
  C7: on an initialized client, for every list of the caller's,
  \<^verbatim>\<open>determine_content_type\<close> sends one chat-completion request whose messages are
  the fixed system instruction, then the caller's messages in their order, then
  the fixed final question from the user; it goes to the chain-of-thought model
  with a cap of 10 tokens.
\<close>

theorem determine_content_type_outgoing_messages:
  assumes "process cfg n evs = (ts, s)" and "initialized (heap s self)"
    and "OAI_messages < length (list_store s)"
  shows "sent (snd (determine_content_type self OAI_messages net s))
     = sent s @
       [Chat_completions_create (COT_MODEL_ID cfg)
          (Dict ''system'' (Str content_type_system_prompt)
           # (list_store s ! OAI_messages)
           @ [Dict ''user'' (Str content_type_question)])
          10 (COT_MODEL_TEMP cfg)]"
proof -
  obtain c where "client (heap s self) = Some c"
    using ready_fields(1) [OF assms(1,2)] by blast
  then show ?thesis
    using ready_fields(2,3) [OF assms(1,2)] assms(3)
    by (simp add: determine_content_type_def build_messages_def content_type_of_def
          first_choice_def strip_of_def basics Let_def
          split: outcome.splits list.splits option.splits)
qed

theorem determine_content_type_outgoing_messages_witness:
  "sent (snd (determine_content_type 0 0 (Raises (SDKException ''down''))
          (snd (process sample_config 1 sample_chat))))
     = [Assistants_retrieve ''asst_1'',
        Chat_completions_create ''cot-model''
          [Dict ''system'' (Str content_type_system_prompt),
           Dict ''user'' (Str ''show me a cat''),
           Dict ''user'' (Str content_type_question)] 10 0]"
proof -
  have lists: "0 < length (list_store (snd (process sample_config 1 sample_chat)))"
    unfolding sample_chat_lists by simp
  show ?thesis
    using determine_content_type_outgoing_messages
            [OF prod.collapse [symmetric] sample_chat_initialized lists,
             of "Raises (SDKException ''down'')"]
          sample_chat_lists sample_chat_sent
    by (simp add: sample_config_def)
qed

subsection \<open>Failures of the network call\<close>

text \<open>
  C5: on an initialized client, when the awaited network call of a request method
  raises an exception \<open>e\<close>, the method returns its sentinel and logs one error
  record with \<open>e\<close>: \<^verbatim>\<open>None\<close> from \<^verbatim>\<open>create_asst_thread\<close> and
  \<^verbatim>\<open>determine_content_type\<close>, \<^verbatim>\<open>False\<close> from \<^verbatim>\<open>add_to_asst_thread\<close>, the fixed texts
  from \<^verbatim>\<open>image_describer\<close>, \<^verbatim>\<open>text_summarizer\<close> and \<^verbatim>\<open>link_summarizer\<close>, and a normal
  return from \<^verbatim>\<open>request_asst_response\<close>. Whatever the call does, no exception
  leaves any of the seven methods. (\<^verbatim>\<open>determine_content_type\<close> is given a list of
  the caller's.)
\<close>

theorem request_methods_return_sentinels:
  assumes "process cfg n evs = (ts, s)" and "initialized (heap s self)"
    and "OAI_messages < length (list_store s)"
  shows
    "create_asst_thread self user_id (Raises e) s
       = (Inr None,
          s\<lparr>logged := logged s @
               [(DEBUG, [S ''Creating assistant thread for user '', I user_id]),
                (ERROR, [S ''Failed to create thread for user '', I user_id, S '': '', E e])],
            sent := sent s @ [Threads_create]\<rparr>)
   \<and> add_to_asst_thread self tid message (Raises e) s
       = (Inr False,
          s\<lparr>logged := logged s @
               [(ERROR, [S (''Failed to add message to thread:'' @ [CHR 0x0A]), M message,
                         S ([CHR 0x0A] @ ''THREAD:''), S tid, S [CHR 0x0A], E e, S [CHR 0x0A]])],
            sent := sent s @ [Messages_create tid (content message) (role message)]\<rparr>)
   \<and> image_describer self base64_str (Raises e) s
       = (Inr (Some ''No description available''),
          s\<lparr>logged := logged s @ [(ERROR, [S ''Error processing image content: '', E e])],
            sent := sent s @
              [Chat_completions_create (IMG_MODEL_ID cfg)
                 [Dict ''system'' (Str image_system_prompt),
                  Dict ''user'' (Parts [Text_part image_user_prompt,
                     Image_url_part (''data:image/jpeg;base64,'' @ base64_str)])]
                 300 (IMG_MODEL_TEMP cfg)]\<rparr>)
   \<and> text_summarizer self description (Raises e) s
       = (Inr ''No summary available'',
          s\<lparr>logged := logged s @ [(ERROR, [S ''Error summarizing description: '', E e])],
            sent := sent s @
              [Chat_completions_create (MSG_MODEL_ID cfg)
                 [Dict ''system'' (Str text_system_prompt),
                  Dict ''user'' (Str (text_user_prompt description))]
                 100 (MSG_MODEL_TEMP cfg)]\<rparr>)
   \<and> link_summarizer self url (Raises e) s
       = (Inr ''No summary available'',
          s\<lparr>logged := logged s @ [(ERROR, [S ''Error summarizing description: '', E e])],
            sent := sent s @
              [Chat_completions_create (MSG_MODEL_ID cfg)
                 [Dict ''system'' (Str link_system_prompt),
                  Dict ''user'' (Str (link_user_prompt url))]
                 100 (MSG_MODEL_TEMP cfg)]\<rparr>)
   \<and> fst (determine_content_type self OAI_messages (Raises e) s) = Inr None
   \<and> logged (snd (determine_content_type self OAI_messages (Raises e) s))
       = logged s @ [(ERROR, [S ''Error determining content type: '', E e])]
   \<and> request_asst_response cfg self tid (Raises e) s
       = (Inr (),
          s\<lparr>logged := logged s @
               [(INFO, [S ''Requesting assistant response for thread '', S tid,
                        S '' and assistant '', S (ASSISTANT_ID cfg)]),
                (ERROR, [S ''Error streaming assistant response: '', E e])],
            sent := sent s @ [Runs_stream tid (ASSISTANT_ID cfg)]\<rparr>)
   \<and> \<not> isl (fst (create_asst_thread self user_id net_thread s))
   \<and> \<not> isl (fst (add_to_asst_thread self tid message net_unit s))
   \<and> \<not> isl (fst (image_describer self base64_str net_chat s))
   \<and> \<not> isl (fst (text_summarizer self description net_chat s))
   \<and> \<not> isl (fst (link_summarizer self url net_chat s))
   \<and> \<not> isl (fst (determine_content_type self OAI_messages net_chat s))
   \<and> \<not> isl (fst (request_asst_response cfg self tid net_unit s))"
proof -
  obtain c where c: "client (heap s self) = Some c"
    using ready_fields(1) [OF assms(1,2)] by blast
  note f = c ready_fields(2-7) [OF assms(1,2)] assms(3)
  have 1: "create_asst_thread self user_id (Raises e) s
       = (Inr None,
          s\<lparr>logged := logged s @
               [(DEBUG, [S ''Creating assistant thread for user '', I user_id]),
                (ERROR, [S ''Failed to create thread for user '', I user_id, S '': '', E e])],
            sent := sent s @ [Threads_create]\<rparr>)"
    using f by (simp add: create_asst_thread_def basics)
  have 2: "add_to_asst_thread self tid message (Raises e) s
       = (Inr False,
          s\<lparr>logged := logged s @
               [(ERROR, [S (''Failed to add message to thread:'' @ [CHR 0x0A]), M message,
                         S ([CHR 0x0A] @ ''THREAD:''), S tid, S [CHR 0x0A], E e, S [CHR 0x0A]])],
            sent := sent s @ [Messages_create tid (content message) (role message)]\<rparr>)"
    using f by (simp add: add_to_asst_thread_def basics)
  have 3: "image_describer self base64_str (Raises e) s
       = (Inr (Some ''No description available''),
          s\<lparr>logged := logged s @ [(ERROR, [S ''Error processing image content: '', E e])],
            sent := sent s @
              [Chat_completions_create (IMG_MODEL_ID cfg)
                 [Dict ''system'' (Str image_system_prompt),
                  Dict ''user'' (Parts [Text_part image_user_prompt,
                     Image_url_part (''data:image/jpeg;base64,'' @ base64_str)])]
                 300 (IMG_MODEL_TEMP cfg)]\<rparr>)"
    using f by (simp add: image_describer_def basics)
  have 4: "text_summarizer self description (Raises e) s
       = (Inr ''No summary available'',
          s\<lparr>logged := logged s @ [(ERROR, [S ''Error summarizing description: '', E e])],
            sent := sent s @
              [Chat_completions_create (MSG_MODEL_ID cfg)
                 [Dict ''system'' (Str text_system_prompt),
                  Dict ''user'' (Str (text_user_prompt description))]
                 100 (MSG_MODEL_TEMP cfg)]\<rparr>)"
    using f by (simp add: text_summarizer_def basics)
  have 5: "link_summarizer self url (Raises e) s
       = (Inr ''No summary available'',
          s\<lparr>logged := logged s @ [(ERROR, [S ''Error summarizing description: '', E e])],
            sent := sent s @
              [Chat_completions_create (MSG_MODEL_ID cfg)
                 [Dict ''system'' (Str link_system_prompt),
                  Dict ''user'' (Str (link_user_prompt url))]
                 100 (MSG_MODEL_TEMP cfg)]\<rparr>)"
    using f by (simp add: link_summarizer_def basics)
  have 6: "fst (determine_content_type self OAI_messages (Raises e) s) = Inr None"
    "logged (snd (determine_content_type self OAI_messages (Raises e) s))
       = logged s @ [(ERROR, [S ''Error determining content type: '', E e])]"
    using f by (simp_all add: determine_content_type_def build_messages_def basics)
  have 7: "request_asst_response cfg self tid (Raises e) s
       = (Inr (),
          s\<lparr>logged := logged s @
               [(INFO, [S ''Requesting assistant response for thread '', S tid,
                        S '' and assistant '', S (ASSISTANT_ID cfg)]),
                (ERROR, [S ''Error streaming assistant response: '', E e])],
            sent := sent s @ [Runs_stream tid (ASSISTANT_ID cfg)]\<rparr>)"
    using f by (simp add: request_asst_response_def basics)
  have 8: "\<not> isl (fst (create_asst_thread self user_id net_thread s))"
    by (simp add: create_asst_thread_def basics split: option.splits outcome.splits)
  have 9: "\<not> isl (fst (add_to_asst_thread self tid message net_unit s))"
    by (simp add: add_to_asst_thread_def basics split: option.splits outcome.splits)
  have 10: "\<not> isl (fst (image_describer self base64_str net_chat s))"
    by (simp add: image_describer_def basics split: option.splits outcome.splits)
  have 11: "\<not> isl (fst (text_summarizer self description net_chat s))"
    by (simp add: text_summarizer_def summary_of_def strip_of_def basics
          split: option.splits outcome.splits list.splits)
  have 12: "\<not> isl (fst (link_summarizer self url net_chat s))"
    by (simp add: link_summarizer_def summary_of_def strip_of_def basics
          split: option.splits outcome.splits list.splits)
  have 13: "\<not> isl (fst (determine_content_type self OAI_messages net_chat s))"
    using assms(3)
    by (simp add: determine_content_type_def build_messages_def content_type_of_def
          first_choice_def strip_of_def basics Let_def
          split: option.splits outcome.splits list.splits)
  have 14: "\<not> isl (fst (request_asst_response cfg self tid net_unit s))"
    using c by (simp add: request_asst_response_def basics split: option.splits outcome.splits)
  show ?thesis
    using 1 2 3 4 5 6 7 8 9 10 11 12 13 14 by blast
qed

theorem request_methods_return_sentinels_witness:
  "fst (create_asst_thread 0 42 (Raises (SDKException ''down''))
          (snd (process sample_config 1 sample_chat))) = Inr None
   \<and> fst (image_describer 0 ''AAAA'' (Raises (SDKException ''down''))
          (snd (process sample_config 1 sample_chat))) = Inr (Some ''No description available'')
   \<and> fst (text_summarizer 0 ''a long text'' (Raises (SDKException ''down''))
          (snd (process sample_config 1 sample_chat))) = Inr ''No summary available''
   \<and> fst (determine_content_type 0 0 (Raises (SDKException ''down''))
          (snd (process sample_config 1 sample_chat))) = Inr None
   \<and> fst (request_asst_response sample_config 0 ''thread_1'' (Raises (SDKException ''down''))
          (snd (process sample_config 1 sample_chat))) = Inr ()"
proof -
  have lists: "0 < length (list_store (snd (process sample_config 1 sample_chat)))"
    unfolding sample_chat_lists by simp
  show ?thesis
    using request_methods_return_sentinels
            [OF prod.collapse [symmetric] sample_chat_initialized lists,
             where user_id = 42 and e = "SDKException ''down''" and base64_str = "''AAAA''"
               and description = "''a long text''" and tid = "''thread_1''"]
    by simp
qed

subsection \<open>\<^verbatim>\<open>add_to_asst_thread\<close>\<close>

text \<open>
  C6: on an initialized client, \<^verbatim>\<open>add_to_asst_thread\<close> returns \<^verbatim>\<open>False\<close> when the
  call that creates the message raises and \<^verbatim>\<open>True\<close> when it returns, and raises
  nothing itself; either way the objects and the class attribute \<^verbatim>\<open>_instance\<close> are
  as before, so the object is still initialized and keeps its assistant and its
  three configuration pairs.
\<close>

theorem add_to_asst_thread_result_and_frame:
  assumes "process cfg n evs = (ts, s)" and "initialized (heap s self)"
  shows "fst (add_to_asst_thread self tid message (Raises e) s) = Inr False
     \<and> fst (add_to_asst_thread self tid message (Returns ()) s) = Inr True
     \<and> heap (snd (add_to_asst_thread self tid message net s)) = heap s
     \<and> cls_instance (snd (add_to_asst_thread self tid message net s)) = cls_instance s
     \<and> initialized (heap (snd (add_to_asst_thread self tid message net s)) self)
     \<and> assistant (heap (snd (add_to_asst_thread self tid message net s)) self)
         = assistant (heap s self)
     \<and> model_config (heap (snd (add_to_asst_thread self tid message net s)) self)
         = model_config (heap s self)"
proof -
  obtain c where c: "client (heap s self) = Some c"
    using ready_fields(1) [OF assms(1,2)] by blast
  have "fst (add_to_asst_thread self tid message (Raises e) s) = Inr False"
    and "fst (add_to_asst_thread self tid message (Returns ()) s) = Inr True"
    using c by (simp_all add: add_to_asst_thread_def basics)
  then show ?thesis
    using assms(2) by (simp add: frame_add_to_asst_thread)
qed

theorem add_to_asst_thread_result_and_frame_witness:
  "fst (add_to_asst_thread 0 ''thread_1'' \<lparr>content = Str ''hello'', role = ''user''\<rparr>
          (Raises (SDKException ''down'')) (snd (process sample_config 1 sample_chat)))
     = Inr False
   \<and> fst (add_to_asst_thread 0 ''thread_1'' \<lparr>content = Str ''hello'', role = ''user''\<rparr>
          (Returns ()) (snd (process sample_config 1 sample_chat)))
     = Inr True"
  using add_to_asst_thread_result_and_frame
          [OF prod.collapse [symmetric] sample_chat_initialized,
           where tid = "''thread_1''" and e = "SDKException ''down''"
             and message = "\<lparr>content = Str ''hello'', role = ''user''\<rparr>"]
  by simp

end
